theory Spec2Isabelle
  imports Main
begin

section \<open>JavaScript values\<close>

text \<open>
  A field declared \<^verbatim>\<open>f?: T | null\<close> has three states: missing (reading it gives
  \<^verbatim>\<open>undefined\<close>), \<^verbatim>\<open>null\<close>, or a value. A key that is present with the value
  \<^verbatim>\<open>undefined\<close> reads the same as a missing key and is not told apart here.
\<close>

datatype 'a opt = Undefined | Null | Val 'a

text \<open>
  Values of type \<^verbatim>\<open>any\<close> and \<^verbatim>\<open>unknown\<close> (the allowed-data payload, metadata
  values). Numbers are kept as integers: no claim computes with them.
\<close>

datatype jsval =
    JUndefined
  | JNull
  | JBool bool
  | JNum int
  | JStr string
  | JArr "jsval list"
  | JObj "(string \<times> jsval) list"

text \<open>\<^verbatim>\<open>Record<string, unknown>\<close>: the own properties in insertion order.\<close>

type_synonym obj = "(string \<times> jsval) list"

text \<open>
  \<^verbatim>\<open>new Date(s)\<close> and \<^verbatim>\<open>new Date()\<close> are kept symbolic: the string that was
  parsed, or the clock reading in milliseconds.
\<close>

datatype js_date = DateParse string | DateAt int

text \<open>Truthiness of an optional string: missing, \<^verbatim>\<open>null\<close> and \<^verbatim>\<open>''\<close> are falsy.\<close>

fun truthy_str :: "string opt \<Rightarrow> bool" where
  "truthy_str (Val s) = (s \<noteq> [])"
| "truthy_str Null = False"
| "truthy_str Undefined = False"

text \<open>\<^verbatim>\<open>x || d\<close> for an optional string \<^verbatim>\<open>x\<close> and a string literal \<^verbatim>\<open>d\<close>.\<close>

fun or_str :: "string opt \<Rightarrow> string \<Rightarrow> string" where
  "or_str (Val s) d = (if s \<noteq> [] then s else d)"
| "or_str Null d = d"
| "or_str Undefined d = d"

text \<open>\<^verbatim>\<open>x + ' ...'\<close>: string conversion of the left operand.\<close>

fun to_string :: "string opt \<Rightarrow> string" where
  "to_string (Val s) = s"
| "to_string Null = ''null''"
| "to_string Undefined = ''undefined''"

text \<open>\<^verbatim>\<open>!b\<close> for \<^verbatim>\<open>b?: boolean\<close>: true unless the flag is \<^verbatim>\<open>true\<close>.\<close>

fun not_flag :: "bool option \<Rightarrow> bool" where
  "not_flag (Some b) = (\<not> b)"
| "not_flag None = True"

text \<open>
  Assigning a property: an existing key keeps its place and takes the new value, a
  new key goes last. Object spread \<^verbatim>\<open>{...a, ...b}\<close> assigns the properties of
  \<^verbatim>\<open>a\<close>, then those of \<^verbatim>\<open>b\<close>, to an empty object.
\<close>

fun set_prop :: "string \<Rightarrow> jsval \<Rightarrow> obj \<Rightarrow> obj" where
  "set_prop k v [] = [(k, v)]"
| "set_prop k v ((k', v') # ps) =
     (if k = k' then (k, v) # ps else (k', v') # set_prop k v ps)"

fun spread :: "obj \<Rightarrow> obj \<Rightarrow> obj" where
  "spread target [] = target"
| "spread target ((k, v) # ps) = spread (set_prop k v target) ps"

section \<open>errors.ts\<close>

text \<open>
  The classes of errors.ts, and \<open>Error\<close> for whatever the transport throws.
  \<open>NetworkError\<close> carries its message and \<^verbatim>\<open>originalError\<close>; \<open>ValidationError\<close>
  its message, reason, status, expiresAt and allowedData.
\<close>

datatype js_error =
    Error string
  | LicenseAgentError string
  | NetworkError string "js_error option"
  | InvalidConfigError string
  | ValidationError string "string opt" "string opt" "js_date opt" jsval

text \<open>\<^verbatim>\<open>e instanceof NetworkError\<close>\<close>

fun instanceof_NetworkError :: "js_error \<Rightarrow> bool" where
  "instanceof_NetworkError (NetworkError m c) = True"
| "instanceof_NetworkError e = False"

section \<open>types.ts\<close>

text \<open>
  \<open>'n\<close> is \<open>int option\<close> for the constructor's argument (the three durations are
  optional) and \<open>int\<close> for \<^verbatim>\<open>this.config\<close> (\<^verbatim>\<open>Required<...>\<close>). Durations and clock
  readings are integers of milliseconds.
\<close>

record 'n LicenseAgentConfig =
  serverUrl :: string
  apiKey :: string
  licenseKey :: string
  productName :: string
  cacheTTL :: 'n
  gracePeriod :: 'n
  requestTimeout :: 'n
  staticMetadata :: "obj option"

record ValidationRequestPayload =
  metadata :: "obj opt"

record ValidationApiResponse =
  is_valid :: bool
  status :: "string opt"
  reason :: "string opt"
  expires_at :: "string opt"
  allowed_data :: jsval

record ValidationResult =
  isValid :: bool
  isOffline :: "bool option"
  isGracePeriod :: "bool option"
  reason :: "string opt"
  status :: "string opt"
  expiresAt :: "js_date opt"
  allowedData :: jsval
  error :: "js_error opt"
  lastCheckedAt :: "js_date opt"

record CacheEntry =
  result :: ValidationResult
  timestamp :: int

section \<open>index.ts\<close>

definition DEFAULT_CACHE_TTL :: int where
  "DEFAULT_CACHE_TTL = 60 * 60 * 1000"

definition DEFAULT_GRACE_PERIOD :: int where
  "DEFAULT_GRACE_PERIOD = 24 * 60 * 60 * 1000"

definition DEFAULT_REQUEST_TIMEOUT :: int where
  "DEFAULT_REQUEST_TIMEOUT = 10000"

record ApiValidateRequest =
  license_key :: string
  product_name :: string
  metadata :: "obj opt"

text \<open>
  The agent: its resolved configuration and the one cache slot (\<^verbatim>\<open>CacheEntry | null\<close>).
  The axios client is the \<open>post\<close> function of the environment below.
\<close>

record LicenseAgent =
  config :: "int LicenseAgentConfig"
  cache :: "CacheEntry option"

text \<open>
  What a call reads from outside the agent: the clock at the three places it is read
  (\<^verbatim>\<open>Date.now()\<close> on entry to validate, \<^verbatim>\<open>new Date()\<close> for lastCheckedAt,
  \<^verbatim>\<open>Date.now()\<close> in updateCache) and the transport, which resolves with the response
  body or rejects with an error. Calls run one after the other.
\<close>

datatype response = Resolved ValidationApiResponse | Rejected js_error

record env =
  now_validate :: int
  post :: "string \<Rightarrow> ApiValidateRequest \<Rightarrow> response"
  now_checked :: int
  now_cache :: int

text \<open>One call of \<^verbatim>\<open>apiClient.post\<close>: the route and the body.\<close>

type_synonym remote_call = "string \<times> ApiValidateRequest"

definition LicenseAgent_new :: "int option LicenseAgentConfig \<Rightarrow> js_error + LicenseAgent" where
  "LicenseAgent_new c =
     (if serverUrl c = [] \<or> apiKey c = [] \<or> productName c = [] then
        Inl (InvalidConfigError ''serverUrl, apiKey, and productName are required'')
      else
        Inr \<lparr>config =
               \<lparr>serverUrl = serverUrl c, apiKey = apiKey c, licenseKey = licenseKey c,
                productName = productName c,
                cacheTTL = (case cacheTTL c of None \<Rightarrow> DEFAULT_CACHE_TTL | Some t \<Rightarrow> t),
                gracePeriod = (case gracePeriod c of None \<Rightarrow> DEFAULT_GRACE_PERIOD | Some t \<Rightarrow> t),
                requestTimeout =
                  (case requestTimeout c of None \<Rightarrow> DEFAULT_REQUEST_TIMEOUT | Some t \<Rightarrow> t),
                staticMetadata = staticMetadata c\<rparr>,
              cache = None\<rparr>)"

definition updateCache :: "ValidationResult \<Rightarrow> int \<Rightarrow> LicenseAgent \<Rightarrow> LicenseAgent" where
  "updateCache r t this =
     (if not_flag (isOffline r) \<and> not_flag (isGracePeriod r) then
        this\<lparr>cache := Some \<lparr>result = r\<lparr>error := Undefined\<rparr>, timestamp = t\<rparr>\<rparr>
      else this)"

definition clearCache :: "LicenseAgent \<Rightarrow> LicenseAgent" where
  "clearCache this = this\<lparr>cache := None\<rparr>"

text \<open>
  The request body: \<^verbatim>\<open>{...this.config.staticMetadata, ...payload?.metadata}\<close>, deleted
  again when it has no keys. The two copies of index.ts differ in the configuration
  field sent as \<^verbatim>\<open>license_key\<close>, so it is the argument \<open>key\<close> here.
\<close>

definition merged_metadata :: "ValidationRequestPayload option \<Rightarrow> LicenseAgent \<Rightarrow> obj" where
  "merged_metadata payload this =
     spread
       (spread [] (case staticMetadata (config this) of None \<Rightarrow> [] | Some m \<Rightarrow> m))
       (case payload of
          None \<Rightarrow> []
        | Some p \<Rightarrow> (case ValidationRequestPayload.metadata p of Val m \<Rightarrow> m | Null \<Rightarrow> [] | Undefined \<Rightarrow> []))"

definition requestData :: "string \<Rightarrow> ValidationRequestPayload option \<Rightarrow> LicenseAgent \<Rightarrow> ApiValidateRequest" where
  "requestData key payload this =
     (let rd = \<lparr>license_key = key, product_name = productName (config this),
                metadata = Val (merged_metadata payload this)\<rparr>
      in if length (map fst (merged_metadata payload this)) = 0
         then rd\<lparr>metadata := Undefined\<rparr> else rd)"

text \<open>The result built from a response body (the \<^verbatim>\<open>try\<close> block after the await).\<close>

definition online_result :: "ValidationApiResponse \<Rightarrow> int \<Rightarrow> ValidationResult" where
  "online_result apiResult t =
     \<lparr>isValid = is_valid apiResult,
      isOffline = None,
      isGracePeriod = None,
      reason = ValidationApiResponse.reason apiResult,
      status = ValidationApiResponse.status apiResult,
      expiresAt = (if truthy_str (expires_at apiResult)
                   then Val (DateParse (to_string (expires_at apiResult))) else Null),
      allowedData = allowed_data apiResult,
      error = Undefined,
      lastCheckedAt = Val (DateAt t)\<rparr>"

text \<open>The \<^verbatim>\<open>catch\<close> block.\<close>

definition offline_result :: "js_error \<Rightarrow> int \<Rightarrow> LicenseAgent \<Rightarrow> ValidationResult" where
  "offline_result e now this =
     (let networkError = NetworkError ''Failed to connect to license server'' (Some e)
      in case cache this of
           Some c \<Rightarrow>
             (let timeSinceLastCheck = now - timestamp c; lastValidResult = result c
              in if isValid lastValidResult \<and> timeSinceLastCheck < gracePeriod (config this) then
                   lastValidResult\<lparr>isValid := True, isOffline := Some True,
                     isGracePeriod := Some True, reason := Val ''grace_period'',
                     error := Val networkError\<rparr>
                 else
                   lastValidResult\<lparr>isValid := False, isOffline := Some True,
                     isGracePeriod := Some False,
                     reason := Val (or_str (reason lastValidResult) ''offline_validation_failed''),
                     error := Val networkError\<rparr>)
         | None \<Rightarrow>
             \<lparr>isValid = False, isOffline = Some True, isGracePeriod = None,
              reason = Val ''network_error_no_cache'', status = Undefined,
              expiresAt = Undefined, allowedData = JUndefined,
              error = Val networkError, lastCheckedAt = Undefined\<rparr>)"

text \<open>The \<^verbatim>\<open>try\<close>/\<^verbatim>\<open>catch\<close> statement of validate: one remote call and its two outcomes.\<close>

definition remote_attempt ::
  "string \<Rightarrow> ValidationRequestPayload option \<Rightarrow> env \<Rightarrow> LicenseAgent
     \<Rightarrow> ValidationResult \<times> LicenseAgent \<times> remote_call list" where
  "remote_attempt key payload env this =
     (let rd = requestData key payload this
      in case post env ''/licenses/validate'' rd of
           Resolved apiResult \<Rightarrow>
             (let r = online_result apiResult (now_checked env)
              in (r, updateCache r (now_cache env) this, [(''/licenses/validate'', rd)]))
         | Rejected e \<Rightarrow>
             (offline_result e (now_validate env) this, this, [(''/licenses/validate'', rd)]))"

text \<open>
  validate of src/index.ts. The value is the result, the agent after the call and
  the remote calls made.
\<close>

definition validate ::
  "ValidationRequestPayload option \<Rightarrow> env \<Rightarrow> LicenseAgent
     \<Rightarrow> ValidationResult \<times> LicenseAgent \<times> remote_call list" where
  "validate payload env this =
     (case cache this of
        Some c \<Rightarrow>
          if now_validate env - timestamp c < cacheTTL (config this) then
            (result c, this, [])
          else remote_attempt (licenseKey (config this)) payload env this
      | None \<Rightarrow> remote_attempt (licenseKey (config this)) payload env this)"

text \<open>
  validate of the second copy of index.ts (logging left out). It differs from the
  first in the fresh-cache branch, which appends \<^verbatim>\<open>' (cached)'\<close> to the reason of
  the copy it returns, and in sending \<^verbatim>\<open>this.config.apiKey\<close> as the license key.
\<close>

definition validate_part002 ::
  "ValidationRequestPayload option \<Rightarrow> env \<Rightarrow> LicenseAgent
     \<Rightarrow> ValidationResult \<times> LicenseAgent \<times> remote_call list" where
  "validate_part002 payload env this =
     (case cache this of
        Some c \<Rightarrow>
          if now_validate env - timestamp c < cacheTTL (config this) then
            (let cachedResult = result c
             in (if not_flag (isOffline cachedResult) \<and> not_flag (isGracePeriod cachedResult)
                 then cachedResult\<lparr>reason := Val (to_string (reason cachedResult) @ '' (cached)'')\<rparr>
                 else cachedResult,
                 this, []))
          else remote_attempt (apiKey (config this)) payload env this
      | None \<Rightarrow> remote_attempt (apiKey (config this)) payload env this)"

definition forceValidate ::
  "ValidationRequestPayload option \<Rightarrow> env \<Rightarrow> LicenseAgent
     \<Rightarrow> ValidationResult \<times> LicenseAgent \<times> remote_call list" where
  "forceValidate payload env this = validate payload env (clearCache this)"

definition forceValidate_part002 ::
  "ValidationRequestPayload option \<Rightarrow> env \<Rightarrow> LicenseAgent
     \<Rightarrow> ValidationResult \<times> LicenseAgent \<times> remote_call list" where
  "forceValidate_part002 payload env this = validate_part002 payload env (clearCache this)"

text \<open>
  \<^verbatim>\<open>new ValidationError(result.reason || 'License validation failed', result)\<close>
\<close>

definition ValidationError_new :: "ValidationResult \<Rightarrow> js_error" where
  "ValidationError_new r =
     ValidationError (or_str (reason r) ''License validation failed'')
       (reason r) (status r) (expiresAt r) (allowedData r)"

text \<open>
  The body of checkOrThrow after the await: \<open>Inl\<close> is the error thrown, \<open>Inr ()\<close>
  the normal return.
\<close>

definition throw_unless_valid :: "ValidationResult \<Rightarrow> js_error + unit" where
  "throw_unless_valid r =
     (if \<not> isValid r then
        if isGracePeriod r = Some True then Inr ()
        else
          (case error r of
             Val e \<Rightarrow> if instanceof_NetworkError e then Inl e else Inl (ValidationError_new r)
           | Null \<Rightarrow> Inl (ValidationError_new r)
           | Undefined \<Rightarrow> Inl (ValidationError_new r))
      else Inr ())"

definition checkOrThrow ::
  "ValidationRequestPayload option \<Rightarrow> env \<Rightarrow> LicenseAgent
     \<Rightarrow> (js_error + unit) \<times> LicenseAgent \<times> remote_call list" where
  "checkOrThrow payload env this =
     (case validate payload env this of
        (r, this', calls) \<Rightarrow> (throw_unless_valid r, this', calls))"

definition checkOrThrow_part002 ::
  "ValidationRequestPayload option \<Rightarrow> env \<Rightarrow> LicenseAgent
     \<Rightarrow> (js_error + unit) \<times> LicenseAgent \<times> remote_call list" where
  "checkOrThrow_part002 payload env this =
     (case validate_part002 payload env this of
        (r, this', calls) \<Rightarrow> (throw_unless_valid r, this', calls))"

text \<open>
  The test that sends validate past the cache: no entry, or an entry whose age is not
  below the TTL.
\<close>

definition remote_needed :: "env \<Rightarrow> LicenseAgent \<Rightarrow> bool" where
  "remote_needed env this =
     (case cache this of
        None \<Rightarrow> True
      | Some c \<Rightarrow> \<not> now_validate env - timestamp c < cacheTTL (config this))"

section \<open>Reachable agents\<close>

text \<open>
  An agent is reachable when the constructor returned it or a public operation of
  either copy of the class was applied to a reachable agent, in any environment.
\<close>

inductive reachable :: "LicenseAgent \<Rightarrow> bool" where
  constructed: "LicenseAgent_new c = Inr this \<Longrightarrow> reachable this"
| validated: "reachable this \<Longrightarrow> reachable (fst (snd (validate payload env this)))"
| validated_part002:
    "reachable this \<Longrightarrow> reachable (fst (snd (validate_part002 payload env this)))"
| force_validated:
    "reachable this \<Longrightarrow> reachable (fst (snd (forceValidate payload env this)))"
| force_validated_part002:
    "reachable this \<Longrightarrow> reachable (fst (snd (forceValidate_part002 payload env this)))"
| checked: "reachable this \<Longrightarrow> reachable (fst (snd (checkOrThrow payload env this)))"
| checked_part002:
    "reachable this \<Longrightarrow> reachable (fst (snd (checkOrThrow_part002 payload env this)))"
| cleared: "reachable this \<Longrightarrow> reachable (clearCache this)"

section \<open>Concrete inputs\<close>

text \<open>The configuration and response bodies of the test suite.\<close>

definition BASE_CONFIG :: "int option LicenseAgentConfig" where
  "BASE_CONFIG =
     \<lparr>serverUrl = ''http:localhost:8080'', apiKey = ''prod_testprefix_testsecret'',
      licenseKey = ''license_0001'', productName = ''TestProduct'',
      cacheTTL = Some 1000, gracePeriod = Some 5000, requestTimeout = Some 500,
      staticMetadata = None\<rparr>"

definition VALID_RESPONSE :: ValidationApiResponse where
  "VALID_RESPONSE =
     \<lparr>is_valid = True, status = Val ''active'', reason = Val ''valid'',
      expires_at = Val ''2030-01-01T00:00:00.000Z'',
      allowed_data = JObj [(''features'', JArr [JStr ''all''])]\<rparr>"

definition INVALID_RESPONSE_REVOKED :: ValidationApiResponse where
  "INVALID_RESPONSE_REVOKED =
     \<lparr>is_valid = False, status = Val ''revoked'', reason = Val ''revoked'',
      expires_at = Undefined, allowed_data = JUndefined\<rparr>"

text \<open>The agent built from \<open>BASE_CONFIG\<close>.\<close>

definition base_agent :: LicenseAgent where
  "base_agent =
     \<lparr>config =
        \<lparr>serverUrl = ''http:localhost:8080'', apiKey = ''prod_testprefix_testsecret'',
         licenseKey = ''license_0001'', productName = ''TestProduct'',
         cacheTTL = 1000, gracePeriod = 5000, requestTimeout = 500,
         staticMetadata = None\<rparr>,
      cache = None\<rparr>"

text \<open>A server that accepts the license, and a transport that fails.\<close>

definition env_ok :: "int \<Rightarrow> env" where
  "env_ok t =
     \<lparr>now_validate = t, post = (\<lambda>route rd. Resolved VALID_RESPONSE),
      now_checked = t, now_cache = t\<rparr>"

definition env_revoked :: "int \<Rightarrow> env" where
  "env_revoked t =
     \<lparr>now_validate = t, post = (\<lambda>route rd. Resolved INVALID_RESPONSE_REVOKED),
      now_checked = t, now_cache = t\<rparr>"

definition env_down :: "int \<Rightarrow> env" where
  "env_down t =
     \<lparr>now_validate = t, post = (\<lambda>route rd. Rejected (Error ''Network Failure'')),
      now_checked = t, now_cache = t\<rparr>"

text \<open>The result and the cache entry of a successful check of \<open>VALID_RESPONSE\<close> at time 0.\<close>

definition valid_result :: ValidationResult where
  "valid_result =
     \<lparr>isValid = True, isOffline = None, isGracePeriod = None, reason = Val ''valid'',
      status = Val ''active'', expiresAt = Val (DateParse ''2030-01-01T00:00:00.000Z''),
      allowedData = JObj [(''features'', JArr [JStr ''all''])], error = Undefined,
      lastCheckedAt = Val (DateAt 0)\<rparr>"

definition cached_agent :: LicenseAgent where
  "cached_agent = base_agent\<lparr>cache := Some \<lparr>result = valid_result, timestamp = 0\<rparr>\<rparr>"

text \<open>
  The result and the agent after a successful check of \<open>INVALID_RESPONSE_REVOKED\<close>
  at time 0: the verdict is invalid, and it is cached all the same.
\<close>

definition revoked_result :: ValidationResult where
  "revoked_result =
     \<lparr>isValid = False, isOffline = None, isGracePeriod = None, reason = Val ''revoked'',
      status = Val ''revoked'', expiresAt = Null, allowedData = JUndefined,
      error = Undefined, lastCheckedAt = Val (DateAt 0)\<rparr>"

definition revoked_agent :: LicenseAgent where
  "revoked_agent = base_agent\<lparr>cache := Some \<lparr>result = revoked_result, timestamp = 0\<rparr>\<rparr>"

text \<open>An agent with static metadata, and a payload whose metadata overrides one key.\<close>

definition meta_agent :: LicenseAgent where
  "meta_agent =
     \<lparr>config =
        \<lparr>serverUrl = ''http:localhost:8080'', apiKey = ''prod_testprefix_testsecret'',
         licenseKey = ''license_0001'', productName = ''TestProduct'',
         cacheTTL = 1000, gracePeriod = 5000, requestTimeout = 500,
         staticMetadata = Some [(''deviceType'', JStr ''server''), (''userId'', JStr ''nobody'')]\<rparr>,
      cache = None\<rparr>"

definition meta_payload :: ValidationRequestPayload where
  "meta_payload = \<lparr>ValidationRequestPayload.metadata = Val [(''userId'', JStr ''user123'')]\<rparr>"

section \<open>The invariant of results\<close>

text \<open>
  isGracePeriod implies isOffline, and isOffline implies that error is present and
  is a NetworkError.
\<close>

definition result_invariant :: "ValidationResult \<Rightarrow> bool" where
  "result_invariant r =
     ((isGracePeriod r = Some True \<longrightarrow> isOffline r = Some True)
      \<and> (isOffline r = Some True \<longrightarrow>
           (case error r of Val e \<Rightarrow> instanceof_NetworkError e
            | Null \<Rightarrow> False | Undefined \<Rightarrow> False)))"

section \<open>Basic facts\<close>

lemma LicenseAgent_new_BASE_CONFIG: "LicenseAgent_new BASE_CONFIG = Inr base_agent"
  by (simp add: LicenseAgent_new_def BASE_CONFIG_def base_agent_def)

lemma requestData_base_agent:
  "requestData key None base_agent =
     \<lparr>license_key = key, product_name = ''TestProduct'', metadata = Undefined\<rparr>"
  by (simp add: requestData_def merged_metadata_def base_agent_def)

lemma online_result_VALID_RESPONSE: "online_result VALID_RESPONSE 0 = valid_result"
  by (simp add: online_result_def VALID_RESPONSE_def valid_result_def)

lemma cache_base_agent: "cache base_agent = None"
  by (simp add: base_agent_def)

lemma config_base_agent:
  "licenseKey (config base_agent) = ''license_0001''"
  "apiKey (config base_agent) = ''prod_testprefix_testsecret''"
  "productName (config base_agent) = ''TestProduct''"
  "cacheTTL (config base_agent) = 1000"
  "gracePeriod (config base_agent) = 5000"
  "staticMetadata (config base_agent) = None"
  by (simp_all add: base_agent_def)

lemma env_ok_simps:
  "now_validate (env_ok t) = t" "now_checked (env_ok t) = t" "now_cache (env_ok t) = t"
  "post (env_ok t) route rd = Resolved VALID_RESPONSE"
  by (simp_all add: env_ok_def)

lemma isOffline_valid_result: "isOffline valid_result = None"
  by (simp add: valid_result_def)

lemma isGracePeriod_valid_result: "isGracePeriod valid_result = None"
  by (simp add: valid_result_def)

lemma error_valid_result: "valid_result\<lparr>error := Undefined\<rparr> = valid_result"
  by (simp add: valid_result_def)

lemma validate_base_agent_ok:
  "validate None (env_ok 0) base_agent =
     (valid_result, cached_agent,
      [(''/licenses/validate'',
        \<lparr>license_key = ''license_0001'', product_name = ''TestProduct'', metadata = Undefined\<rparr>)])"
  by (simp add: validate_def remote_attempt_def requestData_base_agent cache_base_agent
      config_base_agent env_ok_simps online_result_VALID_RESPONSE updateCache_def cached_agent_def
      isOffline_valid_result isGracePeriod_valid_result error_valid_result)

lemma validate_part002_base_agent_ok:
  "validate_part002 None (env_ok 0) base_agent =
     (valid_result, cached_agent,
      [(''/licenses/validate'',
        \<lparr>license_key = ''prod_testprefix_testsecret'', product_name = ''TestProduct'',
         metadata = Undefined\<rparr>)])"
  by (simp add: validate_part002_def remote_attempt_def requestData_base_agent cache_base_agent
      config_base_agent env_ok_simps online_result_VALID_RESPONSE updateCache_def cached_agent_def
      isOffline_valid_result isGracePeriod_valid_result error_valid_result)

lemma reachable_base_agent: "reachable base_agent"
  by (rule reachable.constructed [OF LicenseAgent_new_BASE_CONFIG])

lemma reachable_cached_agent: "reachable cached_agent"
  using reachable.validated [OF reachable_base_agent, of None "env_ok 0"]
  by (simp add: validate_base_agent_ok)

lemma cache_cached_agent: "cache cached_agent = Some \<lparr>result = valid_result, timestamp = 0\<rparr>"
  by (simp add: cached_agent_def)

lemma config_cached_agent: "config cached_agent = config base_agent"
  by (simp add: cached_agent_def)

lemma reason_valid_result: "reason valid_result = Val ''valid''"
  by (simp add: valid_result_def)

section \<open>The branches of validate\<close>

lemma validate_fresh:
  assumes "cache this = Some c" "now_validate env - timestamp c < cacheTTL (config this)"
  shows "validate payload env this = (result c, this, [])"
  using assms by (simp add: validate_def)

lemma validate_part002_fresh:
  assumes "cache this = Some c" "now_validate env - timestamp c < cacheTTL (config this)"
  shows "validate_part002 payload env this =
     (if not_flag (isOffline (result c)) \<and> not_flag (isGracePeriod (result c))
      then (result c)\<lparr>reason := Val (to_string (reason (result c)) @ '' (cached)'')\<rparr>
      else result c, this, [])"
  using assms by (simp add: validate_part002_def Let_def)

lemma validate_remote:
  "remote_needed env this \<Longrightarrow>
     validate payload env this = remote_attempt (licenseKey (config this)) payload env this"
  by (simp add: validate_def remote_needed_def split: option.splits)

lemma validate_part002_remote:
  "remote_needed env this \<Longrightarrow>
     validate_part002 payload env this = remote_attempt (apiKey (config this)) payload env this"
  by (simp add: validate_part002_def remote_needed_def split: option.splits)

lemma updateCache_online_result:
  "updateCache (online_result resp t) t' this =
     this\<lparr>cache := Some \<lparr>result = online_result resp t, timestamp = t'\<rparr>\<rparr>"
  by (simp add: updateCache_def online_result_def)

lemma remote_attempt_Resolved:
  assumes "post env ''/licenses/validate'' (requestData key payload this) = Resolved resp"
  shows "remote_attempt key payload env this =
     (online_result resp (now_checked env),
      this\<lparr>cache := Some \<lparr>result = online_result resp (now_checked env),
                           timestamp = now_cache env\<rparr>\<rparr>,
      [(''/licenses/validate'', requestData key payload this)])"
  using assms by (simp add: remote_attempt_def updateCache_online_result Let_def)

lemma remote_attempt_Rejected:
  assumes "post env ''/licenses/validate'' (requestData key payload this) = Rejected e"
  shows "remote_attempt key payload env this =
     (offline_result e (now_validate env) this, this,
      [(''/licenses/validate'', requestData key payload this)])"
  using assms by (simp add: remote_attempt_def Let_def)

lemma online_result_flags:
  "isOffline (online_result resp t) = None"
  "isGracePeriod (online_result resp t) = None"
  "error (online_result resp t) = Undefined"
  by (simp_all add: online_result_def)

section \<open>The offline paths\<close>

lemma env_down_simps:
  "now_validate (env_down t) = t"
  "post (env_down t) route rd = Rejected (Error ''Network Failure'')"
  by (simp_all add: env_down_def)

lemma offline_result_grace:
  assumes "cache this = Some c" "isValid (result c)"
    "now - timestamp c < gracePeriod (config this)"
  shows "offline_result e now this =
     (result c)\<lparr>isValid := True, isOffline := Some True, isGracePeriod := Some True,
       reason := Val ''grace_period'',
       error := Val (NetworkError ''Failed to connect to license server'' (Some e))\<rparr>"
  using assms by (simp add: offline_result_def Let_def)

lemma offline_result_expired:
  assumes "cache this = Some c"
    "\<not> isValid (result c) \<or> \<not> now - timestamp c < gracePeriod (config this)"
  shows "offline_result e now this =
     (result c)\<lparr>isValid := False, isOffline := Some True, isGracePeriod := Some False,
       reason := Val (or_str (reason (result c)) ''offline_validation_failed''),
       error := Val (NetworkError ''Failed to connect to license server'' (Some e))\<rparr>"
  using assms by (auto simp add: offline_result_def Let_def)

lemma offline_result_no_cache:
  assumes "cache this = None"
  shows "offline_result e now this =
     \<lparr>isValid = False, isOffline = Some True, isGracePeriod = None,
      reason = Val ''network_error_no_cache'', status = Undefined,
      expiresAt = Undefined, allowedData = JUndefined,
      error = Val (NetworkError ''Failed to connect to license server'' (Some e)),
      lastCheckedAt = Undefined\<rparr>"
  using assms by (simp add: offline_result_def)

text \<open>
  C2. The remote attempt fails, the cache holds an entry whose result is valid and
  whose age is below the grace period: both copies of validate return the stored
  result overlaid with isValid = true, isOffline = true, isGracePeriod = true,
  reason = "grace_period" and a NetworkError wrapping the transport's error. Status,
  expiry, allowed data and lastCheckedAt are those of the stored result; the agent
  is unchanged and one remote call was made.
\<close>

theorem C2_grace_period:
  assumes "cache this = Some c" and "remote_needed env this"
    and "isValid (result c)"
    and "now_validate env - timestamp c < gracePeriod (config this)"
    and "r = (result c)\<lparr>isValid := True, isOffline := Some True, isGracePeriod := Some True,
           reason := Val ''grace_period'',
           error := Val (NetworkError ''Failed to connect to license server'' (Some e))\<rparr>"
  shows "(post env ''/licenses/validate'' (requestData (licenseKey (config this)) payload this)
            = Rejected e \<longrightarrow>
          validate payload env this =
            (r, this,
             [(''/licenses/validate'', requestData (licenseKey (config this)) payload this)]))
       \<and> (post env ''/licenses/validate'' (requestData (apiKey (config this)) payload this)
            = Rejected e \<longrightarrow>
          validate_part002 payload env this =
            (r, this,
             [(''/licenses/validate'', requestData (apiKey (config this)) payload this)]))
       \<and> status r = status (result c) \<and> expiresAt r = expiresAt (result c)
       \<and> allowedData r = allowedData (result c)
       \<and> lastCheckedAt r = lastCheckedAt (result c)"
  using assms
  by (simp add: validate_remote validate_part002_remote remote_attempt_Rejected
      offline_result_grace)

theorem C2_grace_period_witness:
  "cache cached_agent = Some \<lparr>result = valid_result, timestamp = 0\<rparr>
   \<and> remote_needed (env_down 2000) cached_agent
   \<and> isValid valid_result
   \<and> now_validate (env_down 2000) - 0 < gracePeriod (config cached_agent)
   \<and> post (env_down 2000) ''/licenses/validate''
        (requestData (licenseKey (config cached_agent)) None cached_agent)
        = Rejected (Error ''Network Failure'')
   \<and> post (env_down 2000) ''/licenses/validate''
        (requestData (apiKey (config cached_agent)) None cached_agent)
        = Rejected (Error ''Network Failure'')
   \<and> fst (validate None (env_down 2000) cached_agent) =
       \<lparr>isValid = True, isOffline = Some True, isGracePeriod = Some True,
        reason = Val ''grace_period'', status = Val ''active'',
        expiresAt = Val (DateParse ''2030-01-01T00:00:00.000Z''),
        allowedData = JObj [(''features'', JArr [JStr ''all''])],
        error = Val (NetworkError ''Failed to connect to license server''
                       (Some (Error ''Network Failure''))),
        lastCheckedAt = Val (DateAt 0)\<rparr>
   \<and> fst (validate_part002 None (env_down 2000) cached_agent) =
       fst (validate None (env_down 2000) cached_agent)"
proof -
  have stale: "remote_needed (env_down 2000) cached_agent"
    by (simp add: remote_needed_def cache_cached_agent config_cached_agent config_base_agent
        env_down_simps)
  have valid: "isValid (result \<lparr>result = valid_result, timestamp = 0\<rparr>)"
    by (simp add: valid_result_def)
  have grace: "now_validate (env_down 2000) - timestamp \<lparr>result = valid_result, timestamp = 0\<rparr>
      < gracePeriod (config cached_agent)"
    by (simp add: config_cached_agent config_base_agent env_down_simps)
  show ?thesis
    using C2_grace_period [where e = "Error ''Network Failure''" and payload = None,
        OF cache_cached_agent stale valid grace refl]
      stale grace
    by (simp add: env_down_simps cache_cached_agent) (simp add: valid_result_def)
qed

text \<open>
  C3. The remote attempt fails and the cache holds an entry whose result is invalid
  or whose age is at least the grace period: both copies return the stored result
  overlaid with isValid = false, isOffline = true, isGracePeriod = false, the stored
  reason (or "offline_validation_failed" when the stored reason is missing, null or
  empty) and the NetworkError.
\<close>

theorem C3_expired_grace:
  assumes "cache this = Some c" and "remote_needed env this"
    and "\<not> isValid (result c) \<or> now_validate env - timestamp c \<ge> gracePeriod (config this)"
    and "r = (result c)\<lparr>isValid := False, isOffline := Some True, isGracePeriod := Some False,
           reason := Val (or_str (reason (result c)) ''offline_validation_failed''),
           error := Val (NetworkError ''Failed to connect to license server'' (Some e))\<rparr>"
  shows "(post env ''/licenses/validate'' (requestData (licenseKey (config this)) payload this)
            = Rejected e \<longrightarrow>
          validate payload env this =
            (r, this,
             [(''/licenses/validate'', requestData (licenseKey (config this)) payload this)]))
       \<and> (post env ''/licenses/validate'' (requestData (apiKey (config this)) payload this)
            = Rejected e \<longrightarrow>
          validate_part002 payload env this =
            (r, this,
             [(''/licenses/validate'', requestData (apiKey (config this)) payload this)]))
       \<and> (reason (result c) = Undefined \<or> reason (result c) = Null \<or> reason (result c) = Val []
            \<longrightarrow> reason r = Val ''offline_validation_failed'')
       \<and> (\<forall>s. reason (result c) = Val s \<and> s \<noteq> [] \<longrightarrow> reason r = Val s)"
proof -
  have "\<not> isValid (result c) \<or> \<not> now_validate env - timestamp c < gracePeriod (config this)"
    using assms(3) by linarith
  then have off: "offline_result e (now_validate env) this = r"
    using assms(1,4) by (simp add: offline_result_expired)
  show ?thesis
    using assms(2) off
    by (auto simp add: validate_remote validate_part002_remote remote_attempt_Rejected assms(4))
qed

theorem C3_expired_grace_witness:
  "cache cached_agent = Some \<lparr>result = valid_result, timestamp = 0\<rparr>
   \<and> remote_needed (env_down 6000) cached_agent
   \<and> now_validate (env_down 6000) - 0 \<ge> gracePeriod (config cached_agent)
   \<and> post (env_down 6000) ''/licenses/validate''
        (requestData (licenseKey (config cached_agent)) None cached_agent)
        = Rejected (Error ''Network Failure'')
   \<and> fst (validate None (env_down 6000) cached_agent) =
       \<lparr>isValid = False, isOffline = Some True, isGracePeriod = Some False,
        reason = Val ''valid'', status = Val ''active'',
        expiresAt = Val (DateParse ''2030-01-01T00:00:00.000Z''),
        allowedData = JObj [(''features'', JArr [JStr ''all''])],
        error = Val (NetworkError ''Failed to connect to license server''
                       (Some (Error ''Network Failure''))),
        lastCheckedAt = Val (DateAt 0)\<rparr>
   \<and> fst (validate_part002 None (env_down 6000) cached_agent) =
       fst (validate None (env_down 6000) cached_agent)"
proof -
  have stale: "remote_needed (env_down 6000) cached_agent"
    by (simp add: remote_needed_def cache_cached_agent config_cached_agent config_base_agent
        env_down_simps)
  have late: "\<not> isValid (result \<lparr>result = valid_result, timestamp = 0\<rparr>)
      \<or> now_validate (env_down 6000) - timestamp \<lparr>result = valid_result, timestamp = 0\<rparr>
          \<ge> gracePeriod (config cached_agent)"
    by (simp add: config_cached_agent config_base_agent env_down_simps)
  show ?thesis
    using C3_expired_grace [where e = "Error ''Network Failure''" and payload = None,
        OF cache_cached_agent stale late refl]
      stale late
    by (simp add: env_down_simps cache_cached_agent) (simp add: valid_result_def)
qed

text \<open>
  C4. The remote attempt fails and the cache is empty: both copies return isValid =
  false, isOffline = true, reason = "network_error_no_cache" and a NetworkError
  wrapping the transport's error; every other field, lastCheckedAt among them, is
  missing.
\<close>

theorem C4_no_cache_offline:
  assumes "cache this = None"
    and "r = \<lparr>isValid = False, isOffline = Some True, isGracePeriod = None,
           reason = Val ''network_error_no_cache'', status = Undefined,
           expiresAt = Undefined, allowedData = JUndefined,
           error = Val (NetworkError ''Failed to connect to license server'' (Some e)),
           lastCheckedAt = Undefined\<rparr>"
  shows "(post env ''/licenses/validate'' (requestData (licenseKey (config this)) payload this)
            = Rejected e \<longrightarrow>
          validate payload env this =
            (r, this,
             [(''/licenses/validate'', requestData (licenseKey (config this)) payload this)]))
       \<and> (post env ''/licenses/validate'' (requestData (apiKey (config this)) payload this)
            = Rejected e \<longrightarrow>
          validate_part002 payload env this =
            (r, this,
             [(''/licenses/validate'', requestData (apiKey (config this)) payload this)]))
       \<and> lastCheckedAt r = Undefined"
proof -
  have "remote_needed env this"
    using assms(1) by (simp add: remote_needed_def)
  then show ?thesis
    using assms
    by (simp add: validate_remote validate_part002_remote remote_attempt_Rejected
        offline_result_no_cache)
qed

theorem C4_no_cache_offline_witness:
  "cache base_agent = None
   \<and> post (env_down 0) ''/licenses/validate''
        (requestData (licenseKey (config base_agent)) None base_agent)
        = Rejected (Error ''Network Failure'')
   \<and> post (env_down 0) ''/licenses/validate''
        (requestData (apiKey (config base_agent)) None base_agent)
        = Rejected (Error ''Network Failure'')
   \<and> fst (validate None (env_down 0) base_agent) =
       \<lparr>isValid = False, isOffline = Some True, isGracePeriod = None,
        reason = Val ''network_error_no_cache'', status = Undefined,
        expiresAt = Undefined, allowedData = JUndefined,
        error = Val (NetworkError ''Failed to connect to license server''
                       (Some (Error ''Network Failure''))),
        lastCheckedAt = Undefined\<rparr>
   \<and> fst (validate_part002 None (env_down 0) base_agent) =
       fst (validate None (env_down 0) base_agent)"
  using C4_no_cache_offline [where e = "Error ''Network Failure''" and payload = None
      and env = "env_down 0", OF cache_base_agent refl]
  by (simp add: env_down_simps cache_base_agent)

section \<open>The online path\<close>

lemma env_revoked_simps:
  "now_validate (env_revoked t) = t" "now_checked (env_revoked t) = t"
  "now_cache (env_revoked t) = t"
  "post (env_revoked t) route rd = Resolved INVALID_RESPONSE_REVOKED"
  by (simp_all add: env_revoked_def)

text \<open>
  C6. The remote attempt succeeds: both copies return a result whose isValid,
  status, reason and allowedData are those of the response body, whose expiresAt is
  the date parsed from a non-empty \<^verbatim>\<open>expires_at\<close> string and null when
  \<^verbatim>\<open>expires_at\<close> is missing, null or empty, whose lastCheckedAt is the clock
  reading taken after the response, and whose isOffline, isGracePeriod and error are
  missing. The agent returned holds that result in the cache, stamped with the clock
  reading of updateCache, and one remote call was made.
\<close>

theorem C6_online_check:
  assumes "remote_needed env this"
    and "r = online_result resp (now_checked env)"
    and "this' = this\<lparr>cache := Some \<lparr>result = r, timestamp = now_cache env\<rparr>\<rparr>"
  shows "(post env ''/licenses/validate'' (requestData (licenseKey (config this)) payload this)
            = Resolved resp \<longrightarrow>
          validate payload env this =
            (r, this',
             [(''/licenses/validate'', requestData (licenseKey (config this)) payload this)]))
       \<and> (post env ''/licenses/validate'' (requestData (apiKey (config this)) payload this)
            = Resolved resp \<longrightarrow>
          validate_part002 payload env this =
            (r, this',
             [(''/licenses/validate'', requestData (apiKey (config this)) payload this)]))
       \<and> isValid r = is_valid resp
       \<and> status r = ValidationApiResponse.status resp
       \<and> reason r = ValidationApiResponse.reason resp
       \<and> allowedData r = allowed_data resp
       \<and> (\<forall>s. expires_at resp = Val s \<and> s \<noteq> [] \<longrightarrow> expiresAt r = Val (DateParse s))
       \<and> (expires_at resp = Undefined \<or> expires_at resp = Null \<or> expires_at resp = Val []
            \<longrightarrow> expiresAt r = Null)
       \<and> lastCheckedAt r = Val (DateAt (now_checked env))
       \<and> isOffline r = None \<and> isGracePeriod r = None \<and> error r = Undefined
       \<and> cache this' = Some \<lparr>result = r, timestamp = now_cache env\<rparr>"
proof -
  have fields: "isValid r = is_valid resp \<and> status r = ValidationApiResponse.status resp
      \<and> reason r = ValidationApiResponse.reason resp \<and> allowedData r = allowed_data resp
      \<and> lastCheckedAt r = Val (DateAt (now_checked env))
      \<and> isOffline r = None \<and> isGracePeriod r = None \<and> error r = Undefined"
    by (simp add: assms(2) online_result_def)
  have parsed: "\<forall>s. expires_at resp = Val s \<and> s \<noteq> [] \<longrightarrow> expiresAt r = Val (DateParse s)"
    by (simp add: assms(2) online_result_def)
  have omitted: "expires_at resp = Undefined \<or> expires_at resp = Null \<or> expires_at resp = Val []
      \<longrightarrow> expiresAt r = Null"
    by (auto simp add: assms(2) online_result_def)
  have calls: "post env ''/licenses/validate'' (requestData key payload this) = Resolved resp
      \<longrightarrow> remote_attempt key payload env this =
            (r, this', [(''/licenses/validate'', requestData key payload this)])" for key
    by (simp add: remote_attempt_Resolved assms(2,3))
  show ?thesis
    using fields parsed omitted calls [of "licenseKey (config this)"]
      calls [of "apiKey (config this)"] assms(1)
    by (simp add: validate_remote validate_part002_remote assms(3))
qed

theorem C6_online_check_witness:
  "remote_needed (env_ok 0) base_agent
   \<and> post (env_ok 0) ''/licenses/validate''
        (requestData (licenseKey (config base_agent)) None base_agent) = Resolved VALID_RESPONSE
   \<and> post (env_ok 0) ''/licenses/validate''
        (requestData (apiKey (config base_agent)) None base_agent) = Resolved VALID_RESPONSE
   \<and> expires_at VALID_RESPONSE = Val ''2030-01-01T00:00:00.000Z''
   \<and> fst (validate None (env_ok 0) base_agent) = valid_result
   \<and> fst (validate_part002 None (env_ok 0) base_agent) = valid_result
   \<and> cache (fst (snd (validate None (env_ok 0) base_agent)))
        = Some \<lparr>result = valid_result, timestamp = 0\<rparr>
   \<and> expiresAt valid_result = Val (DateParse ''2030-01-01T00:00:00.000Z'')
   \<and> lastCheckedAt valid_result = Val (DateAt 0)"
proof -
  have needed: "remote_needed (env_ok 0) base_agent"
    by (simp add: remote_needed_def cache_base_agent)
  have r: "valid_result = online_result VALID_RESPONSE (now_checked (env_ok 0))"
    by (simp add: env_ok_simps online_result_VALID_RESPONSE)
  have exp: "expires_at VALID_RESPONSE = Val ''2030-01-01T00:00:00.000Z''"
    by (simp add: VALID_RESPONSE_def)
  show ?thesis
    using C6_online_check [where payload = None, OF needed r refl] needed exp
    by (simp add: env_ok_simps)
qed

section \<open>forceValidate\<close>

lemma requestData_clearCache:
  "requestData key payload (clearCache this) = requestData key payload this"
  by (simp add: requestData_def merged_metadata_def clearCache_def)

lemma cache_clearCache: "cache (clearCache this) = None"
  by (simp add: clearCache_def)

lemma config_clearCache: "config (clearCache this) = config this"
  by (simp add: clearCache_def)

lemma remote_needed_clearCache: "remote_needed env (clearCache this)"
  by (simp add: remote_needed_def cache_clearCache)

text \<open>
  C5. forceValidate is clearCache followed by validate, in both copies. It always
  makes one remote call, and when that call fails the result is the no-cache offline
  result (isValid = false, isOffline = true, reason = "network_error_no_cache"),
  whatever the cache held before: the grace-period branch cannot be reached.
\<close>

theorem C5_forceValidate:
  "forceValidate payload env this = validate payload env (clearCache this)
   \<and> forceValidate_part002 payload env this = validate_part002 payload env (clearCache this)
   \<and> snd (snd (forceValidate payload env this)) =
       [(''/licenses/validate'', requestData (licenseKey (config this)) payload this)]
   \<and> snd (snd (forceValidate_part002 payload env this)) =
       [(''/licenses/validate'', requestData (apiKey (config this)) payload this)]
   \<and> (post env ''/licenses/validate'' (requestData (licenseKey (config this)) payload this)
         = Rejected e \<longrightarrow>
       fst (forceValidate payload env this) =
         \<lparr>isValid = False, isOffline = Some True, isGracePeriod = None,
          reason = Val ''network_error_no_cache'', status = Undefined,
          expiresAt = Undefined, allowedData = JUndefined,
          error = Val (NetworkError ''Failed to connect to license server'' (Some e)),
          lastCheckedAt = Undefined\<rparr>
       \<and> cache (fst (snd (forceValidate payload env this))) = None)
   \<and> (post env ''/licenses/validate'' (requestData (apiKey (config this)) payload this)
         = Rejected e \<longrightarrow>
       fst (forceValidate_part002 payload env this) =
         \<lparr>isValid = False, isOffline = Some True, isGracePeriod = None,
          reason = Val ''network_error_no_cache'', status = Undefined,
          expiresAt = Undefined, allowedData = JUndefined,
          error = Val (NetworkError ''Failed to connect to license server'' (Some e)),
          lastCheckedAt = Undefined\<rparr>
       \<and> cache (fst (snd (forceValidate_part002 payload env this))) = None)"
proof -
  have calls: "snd (snd (remote_attempt key payload env (clearCache this))) =
      [(''/licenses/validate'', requestData key payload this)]" for key
    by (simp add: remote_attempt_def Let_def requestData_clearCache split: response.splits)
  have failed: "post env ''/licenses/validate'' (requestData key payload this) = Rejected e \<longrightarrow>
      remote_attempt key payload env (clearCache this) =
        (\<lparr>isValid = False, isOffline = Some True, isGracePeriod = None,
          reason = Val ''network_error_no_cache'', status = Undefined,
          expiresAt = Undefined, allowedData = JUndefined,
          error = Val (NetworkError ''Failed to connect to license server'' (Some e)),
          lastCheckedAt = Undefined\<rparr>, clearCache this,
         [(''/licenses/validate'', requestData key payload this)])" for key
    by (simp add: remote_attempt_Rejected requestData_clearCache offline_result_no_cache
        cache_clearCache)
  show ?thesis
    using calls [of "licenseKey (config this)"] calls [of "apiKey (config this)"]
      failed [of "licenseKey (config this)"] failed [of "apiKey (config this)"]
    by (simp add: forceValidate_def forceValidate_part002_def validate_remote
        validate_part002_remote remote_needed_clearCache config_clearCache cache_clearCache)
qed

theorem C5_forceValidate_witness:
  "cache cached_agent = Some \<lparr>result = valid_result, timestamp = 0\<rparr>
   \<and> now_validate (env_down 500) - 0 < gracePeriod (config cached_agent)
   \<and> post (env_down 500) ''/licenses/validate''
        (requestData (licenseKey (config cached_agent)) None cached_agent)
        = Rejected (Error ''Network Failure'')
   \<and> post (env_down 500) ''/licenses/validate''
        (requestData (apiKey (config cached_agent)) None cached_agent)
        = Rejected (Error ''Network Failure'')
   \<and> fst (forceValidate None (env_down 500) cached_agent) =
       \<lparr>isValid = False, isOffline = Some True, isGracePeriod = None,
        reason = Val ''network_error_no_cache'', status = Undefined,
        expiresAt = Undefined, allowedData = JUndefined,
        error = Val (NetworkError ''Failed to connect to license server''
                       (Some (Error ''Network Failure''))),
        lastCheckedAt = Undefined\<rparr>
   \<and> fst (forceValidate_part002 None (env_down 500) cached_agent) =
       fst (forceValidate None (env_down 500) cached_agent)"
  using C5_forceValidate [where payload = None and env = "env_down 500"
      and this = cached_agent and e = "Error ''Network Failure''",
      THEN conjunct2, THEN conjunct2, THEN conjunct2, THEN conjunct2]
  by (simp add: env_down_simps cache_cached_agent config_cached_agent config_base_agent)

section \<open>checkOrThrow\<close>

lemma fst_checkOrThrow:
  "fst (checkOrThrow payload env this) = throw_unless_valid (fst (validate payload env this))"
  by (simp add: checkOrThrow_def split: prod.splits)

lemma fst_checkOrThrow_part002:
  "fst (checkOrThrow_part002 payload env this) =
     throw_unless_valid (fst (validate_part002 payload env this))"
  by (simp add: checkOrThrow_part002_def split: prod.splits)

lemma snd_checkOrThrow:
  "snd (checkOrThrow payload env this) = snd (validate payload env this)"
  by (simp add: checkOrThrow_def split: prod.splits)

lemma snd_checkOrThrow_part002:
  "snd (checkOrThrow_part002 payload env this) = snd (validate_part002 payload env this)"
  by (simp add: checkOrThrow_part002_def split: prod.splits)

lemma throw_unless_valid_ok:
  "isValid r \<or> isGracePeriod r = Some True \<Longrightarrow> throw_unless_valid r = Inr ()"
  by (auto simp add: throw_unless_valid_def)

lemma throw_unless_valid_network:
  "\<not> isValid r \<Longrightarrow> isGracePeriod r \<noteq> Some True \<Longrightarrow> error r = Val e \<Longrightarrow>
     instanceof_NetworkError e \<Longrightarrow> throw_unless_valid r = Inl e"
  by (simp add: throw_unless_valid_def)

lemma throw_unless_valid_invalid:
  "\<not> isValid r \<Longrightarrow> isGracePeriod r \<noteq> Some True \<Longrightarrow>
     \<not> (\<exists>e. error r = Val e \<and> instanceof_NetworkError e) \<Longrightarrow>
     throw_unless_valid r =
       Inl (ValidationError (or_str (reason r) ''License validation failed'')
              (reason r) (status r) (expiresAt r) (allowedData r))"
  by (simp add: throw_unless_valid_def ValidationError_new_def split: opt.splits)

text \<open>
  C9. Let \<open>r\<close> be the result of the validate call inside checkOrThrow (either copy)
  and \<open>out\<close> what checkOrThrow does. It returns normally when \<open>r\<close> is valid or in
  grace period. Otherwise, when \<open>r\<close> carries a NetworkError, that error is thrown;
  else a ValidationError is thrown whose message is the reason of \<open>r\<close>, or
  "License validation failed" when the reason is missing, null or empty, and whose
  reason, status, expiresAt and allowedData are those of \<open>r\<close>.
\<close>

theorem C9_checkOrThrow:
  assumes "(r = fst (validate payload env this)
            \<and> out = fst (checkOrThrow payload env this))
         \<or> (r = fst (validate_part002 payload env this)
            \<and> out = fst (checkOrThrow_part002 payload env this))"
  shows "(isValid r \<or> isGracePeriod r = Some True \<longrightarrow> out = Inr ())
       \<and> (\<forall>e. \<not> isValid r \<and> isGracePeriod r \<noteq> Some True \<and> error r = Val e
              \<and> instanceof_NetworkError e \<longrightarrow> out = Inl e)
       \<and> (\<not> isValid r \<and> isGracePeriod r \<noteq> Some True
            \<and> \<not> (\<exists>e. error r = Val e \<and> instanceof_NetworkError e) \<longrightarrow>
          out = Inl (ValidationError (or_str (reason r) ''License validation failed'')
                       (reason r) (status r) (expiresAt r) (allowedData r)))
       \<and> (reason r = Undefined \<or> reason r = Null \<or> reason r = Val [] \<longrightarrow>
            or_str (reason r) ''License validation failed'' = ''License validation failed'')
       \<and> (\<forall>s. reason r = Val s \<and> s \<noteq> [] \<longrightarrow>
            or_str (reason r) ''License validation failed'' = s)"
proof -
  have out: "out = throw_unless_valid r"
    using assms by (auto simp add: fst_checkOrThrow fst_checkOrThrow_part002)
  show ?thesis
    unfolding out
    using throw_unless_valid_ok [of r] throw_unless_valid_invalid [of r]
      throw_unless_valid_network [of r]
    by auto
qed

theorem C9_checkOrThrow_witness:
  "fst (validate None (env_ok 0) base_agent) = valid_result
   \<and> isValid valid_result
   \<and> fst (checkOrThrow None (env_ok 0) base_agent) = Inr ()
   \<and> fst (checkOrThrow_part002 None (env_down 2000) cached_agent) = Inr ()
   \<and> fst (checkOrThrow None (env_down 0) base_agent) =
       Inl (NetworkError ''Failed to connect to license server''
              (Some (Error ''Network Failure'')))
   \<and> fst (checkOrThrow None (env_revoked 0) base_agent) =
       Inl (ValidationError ''revoked'' (Val ''revoked'') (Val ''revoked'') Null JUndefined)"
proof -
  let ?ne = "NetworkError ''Failed to connect to license server'' (Some (Error ''Network Failure''))"
  have ok: "fst (validate None (env_ok 0) base_agent) = valid_result"
    by (simp add: validate_base_agent_ok)
  have valid: "isValid valid_result"
    by (simp add: valid_result_def)
  have needed: "remote_needed env base_agent" for env
    by (simp add: remote_needed_def cache_base_agent)
  have stale: "remote_needed (env_down 2000) cached_agent"
    by (simp add: remote_needed_def cache_cached_agent config_cached_agent config_base_agent
        env_down_simps)
  have grace: "fst (validate_part002 None (env_down 2000) cached_agent) =
      valid_result\<lparr>isValid := True, isOffline := Some True, isGracePeriod := Some True,
        reason := Val ''grace_period'', error := Val ?ne\<rparr>"
    using stale
    by (simp add: validate_part002_remote remote_attempt_Rejected env_down_simps
        offline_result_grace [OF cache_cached_agent] config_cached_agent config_base_agent
        valid)
  have down: "fst (validate None (env_down 0) base_agent) =
      \<lparr>isValid = False, isOffline = Some True, isGracePeriod = None,
       reason = Val ''network_error_no_cache'', status = Undefined,
       expiresAt = Undefined, allowedData = JUndefined,
       error = Val ?ne, lastCheckedAt = Undefined\<rparr>"
    by (simp add: validate_remote needed remote_attempt_Rejected env_down_simps
        offline_result_no_cache cache_base_agent)
  have revoked: "fst (validate None (env_revoked 0) base_agent) =
      \<lparr>isValid = False, isOffline = None, isGracePeriod = None,
       reason = Val ''revoked'', status = Val ''revoked'',
       expiresAt = Null, allowedData = JUndefined,
       error = Undefined, lastCheckedAt = Val (DateAt 0)\<rparr>"
    by (simp add: validate_remote needed remote_attempt_Resolved env_revoked_simps)
      (simp add: online_result_def INVALID_RESPONSE_REVOKED_def)
  have c1: "fst (checkOrThrow None (env_ok 0) base_agent) = Inr ()"
    using C9_checkOrThrow [where r = valid_result and payload = None and env = "env_ok 0"
        and this = base_agent and out = "fst (checkOrThrow None (env_ok 0) base_agent)"]
      ok valid
    by simp
  have c2: "fst (checkOrThrow_part002 None (env_down 2000) cached_agent) = Inr ()"
    using C9_checkOrThrow [where payload = None and env = "env_down 2000"
        and this = cached_agent
        and r = "fst (validate_part002 None (env_down 2000) cached_agent)"
        and out = "fst (checkOrThrow_part002 None (env_down 2000) cached_agent)"]
    by (simp add: grace)
  have c3: "fst (checkOrThrow None (env_down 0) base_agent) = Inl ?ne"
    using C9_checkOrThrow [where payload = None and env = "env_down 0"
        and this = base_agent
        and r = "fst (validate None (env_down 0) base_agent)"
        and out = "fst (checkOrThrow None (env_down 0) base_agent)"]
    by (simp add: down)
  have c4: "fst (checkOrThrow None (env_revoked 0) base_agent) =
      Inl (ValidationError ''revoked'' (Val ''revoked'') (Val ''revoked'') Null JUndefined)"
    using C9_checkOrThrow [where payload = None and env = "env_revoked 0"
        and this = base_agent
        and r = "fst (validate None (env_revoked 0) base_agent)"
        and out = "fst (checkOrThrow None (env_revoked 0) base_agent)"]
    by (simp add: revoked)
  show ?thesis
    using ok valid c1 c2 c3 c4 by simp
qed

section \<open>The outbound request\<close>

lemma map_of_set_prop: "map_of (set_prop k v ps) = (map_of ps)(k \<mapsto> v)"
  by (induction ps) auto

lemma set_prop_not_Nil: "set_prop k v ps \<noteq> []"
  by (cases ps) (auto split: if_splits)

lemma spread_not_Nil: "t \<noteq> [] \<Longrightarrow> spread t ps \<noteq> []"
proof (induction ps arbitrary: t)
  case Nil
  then show ?case by simp
next
  case (Cons p ps)
  obtain k v where p: "p = (k, v)" by (cases p)
  have "spread (set_prop k v t) ps \<noteq> []"
    by (rule Cons.IH) (rule set_prop_not_Nil)
  then show ?case by (simp add: p)
qed

lemma spread_eq_Nil: "spread t ps = [] \<longleftrightarrow> t = [] \<and> ps = []"
proof (cases ps)
  case Nil
  then show ?thesis by simp
next
  case (Cons p qs)
  obtain k v where p: "p = (k, v)" by (cases p)
  have "spread (set_prop k v t) qs \<noteq> []"
    by (rule spread_not_Nil) (rule set_prop_not_Nil)
  with Cons p show ?thesis by simp
qed

lemma map_of_spread:
  "distinct (map fst ps) \<Longrightarrow> map_of (spread t ps) = map_of t ++ map_of ps"
proof (induction ps arbitrary: t)
  case Nil
  then show ?case by simp
next
  case (Cons p ps)
  obtain k v where p: "p = (k, v)" by (cases p)
  from Cons.prems p have fresh: "k \<notin> dom (map_of ps)" and rest: "distinct (map fst ps)"
    by (simp_all add: dom_map_of_conv_image_fst)
  have "map_of (spread t (p # ps)) = map_of (set_prop k v t) ++ map_of ps"
    using Cons.IH [OF rest] p by simp
  also have "\<dots> = (map_of t ++ map_of ps)(k \<mapsto> v)"
    using fresh by (simp add: map_of_set_prop map_add_upd_left)
  also have "\<dots> = map_of t ++ map_of (p # ps)"
    using p by simp
  finally show ?case .
qed

lemma requestData_eq:
  "requestData key payload this =
     \<lparr>license_key = key, product_name = productName (config this),
      metadata = (if merged_metadata payload this = [] then Undefined
                  else Val (merged_metadata payload this))\<rparr>"
  by (simp add: requestData_def Let_def)

lemma calls_remote_attempt:
  "snd (snd (remote_attempt key payload env this)) =
     [(''/licenses/validate'', requestData key payload this)]"
  by (simp add: remote_attempt_def Let_def split: response.splits)

text \<open>
  C10. Whenever validate goes to the server it makes one call, to
  \<^verbatim>\<open>/licenses/validate\<close>, whose body carries the product name and a license key
  (\<^verbatim>\<open>config.licenseKey\<close> in src/index.ts, \<^verbatim>\<open>config.apiKey\<close> in the other copy).
  Its metadata is the static metadata of the configuration overridden key by key by
  the metadata of the payload, and is left out when that merge has no keys. Objects
  have each key once, whence the two \<open>distinct\<close> premises.
\<close>

theorem C10_request_metadata:
  assumes "remote_needed env this"
    and "static = (case staticMetadata (config this) of None \<Rightarrow> [] | Some m \<Rightarrow> m)"
    and "dynamic =
           (case payload of
              None \<Rightarrow> []
            | Some p \<Rightarrow>
                (case ValidationRequestPayload.metadata p of
                   Val m \<Rightarrow> m | Null \<Rightarrow> [] | Undefined \<Rightarrow> []))"
    and "distinct (map fst static)" and "distinct (map fst dynamic)"
    and "merged = merged_metadata payload this"
  shows "map_of merged = map_of static ++ map_of dynamic
       \<and> (\<forall>k. map_of merged k =
                (case map_of dynamic k of Some v \<Rightarrow> Some v | None \<Rightarrow> map_of static k))
       \<and> (merged = [] \<longleftrightarrow> static = [] \<and> dynamic = [])
       \<and> snd (snd (validate payload env this)) =
           [(''/licenses/validate'',
             \<lparr>license_key = licenseKey (config this),
              product_name = productName (config this),
              metadata = (if merged = [] then Undefined else Val merged)\<rparr>)]
       \<and> snd (snd (validate_part002 payload env this)) =
           [(''/licenses/validate'',
             \<lparr>license_key = apiKey (config this),
              product_name = productName (config this),
              metadata = (if merged = [] then Undefined else Val merged)\<rparr>)]"
proof -
  have merged: "merged = spread (spread [] static) dynamic"
    by (simp add: assms(2,3,6) merged_metadata_def)
  have maps: "map_of merged = map_of static ++ map_of dynamic"
    by (simp add: merged map_of_spread assms(4,5))
  have lookup: "\<forall>k. map_of merged k =
      (case map_of dynamic k of Some v \<Rightarrow> Some v | None \<Rightarrow> map_of static k)"
    by (simp add: maps map_add_def)
  have empty: "merged = [] \<longleftrightarrow> static = [] \<and> dynamic = []"
    by (simp add: merged spread_eq_Nil)
  have calls: "snd (snd (remote_attempt key payload env this)) =
      [(''/licenses/validate'',
        \<lparr>license_key = key, product_name = productName (config this),
         metadata = (if merged = [] then Undefined else Val merged)\<rparr>)]" for key
    unfolding calls_remote_attempt assms(6) by (subst requestData_eq) (rule refl)
  show ?thesis
    using maps lookup empty calls [of "licenseKey (config this)"]
      calls [of "apiKey (config this)"] assms(1)
    by (simp add: validate_remote validate_part002_remote)
qed

theorem C10_request_metadata_witness:
  "remote_needed (env_ok 0) meta_agent
   \<and> staticMetadata (config meta_agent) =
       Some [(''deviceType'', JStr ''server''), (''userId'', JStr ''nobody'')]
   \<and> ValidationRequestPayload.metadata meta_payload = Val [(''userId'', JStr ''user123'')]
   \<and> merged_metadata (Some meta_payload) meta_agent =
       [(''deviceType'', JStr ''server''), (''userId'', JStr ''user123'')]
   \<and> snd (snd (validate (Some meta_payload) (env_ok 0) meta_agent)) =
       [(''/licenses/validate'',
         \<lparr>license_key = ''license_0001'', product_name = ''TestProduct'',
          metadata = Val [(''deviceType'', JStr ''server''), (''userId'', JStr ''user123'')]\<rparr>)]
   \<and> snd (snd (validate_part002 (Some meta_payload) (env_ok 0) meta_agent)) =
       [(''/licenses/validate'',
         \<lparr>license_key = ''prod_testprefix_testsecret'', product_name = ''TestProduct'',
          metadata = Val [(''deviceType'', JStr ''server''), (''userId'', JStr ''user123'')]\<rparr>)]
   \<and> map_of (merged_metadata (Some meta_payload) meta_agent) ''userId'' = Some (JStr ''user123'')"
proof -
  have needed: "remote_needed (env_ok 0) meta_agent"
    by (simp add: remote_needed_def meta_agent_def)
  have static: "[(''deviceType'', JStr ''server''), (''userId'', JStr ''nobody'')] =
      (case staticMetadata (config meta_agent) of None \<Rightarrow> [] | Some m \<Rightarrow> m)"
    by (simp add: meta_agent_def)
  have dynamic: "[(''userId'', JStr ''user123'')] =
      (case Some meta_payload of
         None \<Rightarrow> []
       | Some p \<Rightarrow>
           (case ValidationRequestPayload.metadata p of
              Val m \<Rightarrow> m | Null \<Rightarrow> [] | Undefined \<Rightarrow> []))"
    by (simp add: meta_payload_def)
  have d1: "distinct (map fst [(''deviceType'', JStr ''server''), (''userId'', JStr ''nobody'')])"
    by simp
  have d2: "distinct (map fst [(''userId'', JStr ''user123'')])"
    by simp
  have merged: "merged_metadata (Some meta_payload) meta_agent =
      [(''deviceType'', JStr ''server''), (''userId'', JStr ''user123'')]"
    by (simp add: merged_metadata_def meta_agent_def meta_payload_def)
  show ?thesis
    using C10_request_metadata [OF needed static dynamic d1 d2 refl] needed merged
    by (simp add: meta_agent_def meta_payload_def)
qed

section \<open>The cache slot\<close>

lemma not_flag_iff: "not_flag x \<longleftrightarrow> x \<noteq> Some True"
  by (cases x) auto

lemma cache_remote_attempt:
  "cache (fst (snd (remote_attempt key payload env this))) = cache this
   \<or> (\<exists>resp. cache (fst (snd (remote_attempt key payload env this))) =
         Some \<lparr>result = online_result resp (now_checked env), timestamp = now_cache env\<rparr>)"
  by (auto simp add: remote_attempt_def Let_def updateCache_online_result split: response.splits)

lemma cache_validate:
  "cache (fst (snd (validate payload env this))) = cache this
   \<or> (\<exists>resp. cache (fst (snd (validate payload env this))) =
         Some \<lparr>result = online_result resp (now_checked env), timestamp = now_cache env\<rparr>)"
proof (cases "remote_needed env this")
  case True
  then show ?thesis
    using cache_remote_attempt [of "licenseKey (config this)" payload env this]
    by (simp add: validate_remote)
next
  case False
  then show ?thesis
    by (simp add: validate_def remote_needed_def split: option.splits)
qed

lemma cache_validate_part002:
  "cache (fst (snd (validate_part002 payload env this))) = cache this
   \<or> (\<exists>resp. cache (fst (snd (validate_part002 payload env this))) =
         Some \<lparr>result = online_result resp (now_checked env), timestamp = now_cache env\<rparr>)"
proof (cases "remote_needed env this")
  case True
  then show ?thesis
    using cache_remote_attempt [of "apiKey (config this)" payload env this]
    by (simp add: validate_part002_remote)
next
  case False
  then show ?thesis
    by (simp add: validate_part002_def remote_needed_def Let_def split: option.splits)
qed

lemma cache_forceValidate:
  "cache (fst (snd (forceValidate payload env this))) = None
   \<or> (\<exists>resp. cache (fst (snd (forceValidate payload env this))) =
         Some \<lparr>result = online_result resp (now_checked env), timestamp = now_cache env\<rparr>)"
  using cache_validate [of payload env "clearCache this"]
  by (simp add: forceValidate_def cache_clearCache)

lemma cache_forceValidate_part002:
  "cache (fst (snd (forceValidate_part002 payload env this))) = None
   \<or> (\<exists>resp. cache (fst (snd (forceValidate_part002 payload env this))) =
         Some \<lparr>result = online_result resp (now_checked env), timestamp = now_cache env\<rparr>)"
  using cache_validate_part002 [of payload env "clearCache this"]
  by (simp add: forceValidate_part002_def cache_clearCache)

lemma cache_LicenseAgent_new: "LicenseAgent_new c = Inr this \<Longrightarrow> cache this = None"
  by (auto simp add: LicenseAgent_new_def split: if_splits)

text \<open>Every entry in the cache of a reachable agent is the result of a successful check.\<close>

lemma reachable_cache:
  "reachable this \<Longrightarrow>
     cache this = None
     \<or> (\<exists>resp t t'. cache this = Some \<lparr>result = online_result resp t, timestamp = t'\<rparr>)"
proof (induction rule: reachable.induct)
  case (constructed c this)
  then show ?case by (simp add: cache_LicenseAgent_new)
next
  case (validated this payload env)
  then show ?case
    using cache_validate [of payload env this] by metis
next
  case (validated_part002 this payload env)
  then show ?case
    using cache_validate_part002 [of payload env this] by metis
next
  case (force_validated this payload env)
  then show ?case
    using cache_forceValidate [of payload env this] by metis
next
  case (force_validated_part002 this payload env)
  then show ?case
    using cache_forceValidate_part002 [of payload env this] by metis
next
  case (checked this payload env)
  then show ?case
    using cache_validate [of payload env this] by (simp add: snd_checkOrThrow) metis
next
  case (checked_part002 this payload env)
  then show ?case
    using cache_validate_part002 [of payload env this]
    by (simp add: snd_checkOrThrow_part002) metis
next
  case (cleared this)
  then show ?case by (simp add: cache_clearCache)
qed

text \<open>
  C7. In every reachable agent the cache is empty or holds the result of a
  successful remote check, which is neither offline nor grace-period and carries no
  error. updateCache stores its argument (with error reset) under the given clock
  reading exactly when neither isOffline nor isGracePeriod is true, and otherwise
  leaves the agent as it is; clearCache empties the slot. From any agent, each
  public operation leaves in the cache what was there, nothing, or the result of a
  successful check.
\<close>

theorem C7_cache_invariant:
  "(reachable this \<longrightarrow>
      (cache this = None
       \<or> (\<exists>resp t t'. cache this = Some \<lparr>result = online_result resp t, timestamp = t'\<rparr>))
      \<and> (\<forall>c. cache this = Some c \<longrightarrow>
             isOffline (result c) \<noteq> Some True \<and> isGracePeriod (result c) \<noteq> Some True
             \<and> error (result c) = Undefined))
   \<and> updateCache r t a =
       (if isOffline r \<noteq> Some True \<and> isGracePeriod r \<noteq> Some True
        then a\<lparr>cache := Some \<lparr>result = r\<lparr>error := Undefined\<rparr>, timestamp = t\<rparr>\<rparr>
        else a)
   \<and> cache (clearCache a) = None
   \<and> (\<forall>a' \<in> {fst (snd (validate payload env a)), fst (snd (validate_part002 payload env a)),
               fst (snd (forceValidate payload env a)),
               fst (snd (forceValidate_part002 payload env a)),
               fst (snd (checkOrThrow payload env a)),
               fst (snd (checkOrThrow_part002 payload env a)), clearCache a}.
         cache a' = cache a \<or> cache a' = None
         \<or> (\<exists>resp. cache a' =
               Some \<lparr>result = online_result resp (now_checked env),
                     timestamp = now_cache env\<rparr>))"
proof (intro conjI impI)
  assume "reachable this"
  then show entry: "cache this = None
      \<or> (\<exists>resp t t'. cache this = Some \<lparr>result = online_result resp t, timestamp = t'\<rparr>)"
    by (rule reachable_cache)
  then show "\<forall>c. cache this = Some c \<longrightarrow>
      isOffline (result c) \<noteq> Some True \<and> isGracePeriod (result c) \<noteq> Some True
      \<and> error (result c) = Undefined"
    by (auto simp add: online_result_flags)
next
  show "updateCache r t a =
      (if isOffline r \<noteq> Some True \<and> isGracePeriod r \<noteq> Some True
       then a\<lparr>cache := Some \<lparr>result = r\<lparr>error := Undefined\<rparr>, timestamp = t\<rparr>\<rparr>
       else a)"
    by (simp add: updateCache_def not_flag_iff)
next
  show "cache (clearCache a) = None"
    by (rule cache_clearCache)
next
  show "\<forall>a' \<in> {fst (snd (validate payload env a)), fst (snd (validate_part002 payload env a)),
               fst (snd (forceValidate payload env a)),
               fst (snd (forceValidate_part002 payload env a)),
               fst (snd (checkOrThrow payload env a)),
               fst (snd (checkOrThrow_part002 payload env a)), clearCache a}.
         cache a' = cache a \<or> cache a' = None
         \<or> (\<exists>resp. cache a' =
               Some \<lparr>result = online_result resp (now_checked env),
                     timestamp = now_cache env\<rparr>)"
    using cache_validate [of payload env a] cache_validate_part002 [of payload env a]
      cache_forceValidate [of payload env a] cache_forceValidate_part002 [of payload env a]
    by (simp add: snd_checkOrThrow snd_checkOrThrow_part002 cache_clearCache) blast
qed

theorem C7_cache_invariant_witness:
  "reachable cached_agent
   \<and> cache cached_agent = Some \<lparr>result = valid_result, timestamp = 0\<rparr>
   \<and> valid_result = online_result VALID_RESPONSE 0
   \<and> isOffline valid_result \<noteq> Some True \<and> isGracePeriod valid_result \<noteq> Some True
   \<and> error valid_result = Undefined
   \<and> updateCache (valid_result\<lparr>isOffline := Some True\<rparr>) 7 base_agent = base_agent
   \<and> updateCache valid_result 7 base_agent =
       base_agent\<lparr>cache := Some \<lparr>result = valid_result, timestamp = 7\<rparr>\<rparr>
   \<and> cache (fst (snd (validate None (env_down 2000) cached_agent))) = cache cached_agent"
proof -
  note inst = C7_cache_invariant [where this = cached_agent and a = cached_agent
      and payload = None and env = "env_down 2000"]
  have flags: "isOffline valid_result \<noteq> Some True \<and> isGracePeriod valid_result \<noteq> Some True
      \<and> error valid_result = Undefined"
    using inst [where r = valid_result and t = 7, THEN conjunct1] reachable_cached_agent
    by (simp add: cache_cached_agent)
  have degraded: "updateCache (valid_result\<lparr>isOffline := Some True\<rparr>) 7 base_agent = base_agent"
    using C7_cache_invariant [where r = "valid_result\<lparr>isOffline := Some True\<rparr>" and t = 7
        and a = base_agent, THEN conjunct2, THEN conjunct1]
    by simp
  have clean: "updateCache valid_result 7 base_agent =
      base_agent\<lparr>cache := Some \<lparr>result = valid_result, timestamp = 7\<rparr>\<rparr>"
    using C7_cache_invariant [where r = valid_result and t = 7 and a = base_agent,
        THEN conjunct2, THEN conjunct1]
    by (simp add: isOffline_valid_result isGracePeriod_valid_result error_valid_result)
  have stale: "remote_needed (env_down 2000) cached_agent"
    by (simp add: remote_needed_def cache_cached_agent config_cached_agent config_base_agent
        env_down_simps)
  have kept: "cache (fst (snd (validate None (env_down 2000) cached_agent))) = cache cached_agent"
    using stale by (simp add: validate_remote remote_attempt_Rejected env_down_simps)
  show ?thesis
    using reachable_cached_agent cache_cached_agent online_result_VALID_RESPONSE flags
      degraded clean kept
    by simp
qed

section \<open>The invariant of returned results\<close>

lemma result_invariant_online: "result_invariant (online_result resp t)"
  by (simp add: result_invariant_def online_result_flags)

lemma result_invariant_offline: "result_invariant (offline_result e now this)"
  by (simp add: result_invariant_def offline_result_def Let_def split: option.splits)

lemma result_invariant_reason: "result_invariant (r\<lparr>reason := x\<rparr>) = result_invariant r"
  by (simp add: result_invariant_def)

lemma result_invariant_remote_attempt:
  "result_invariant (fst (remote_attempt key payload env this))"
  by (simp add: remote_attempt_def Let_def result_invariant_online result_invariant_offline
      split: response.splits)

lemma result_invariant_validate:
  assumes "reachable this"
  shows "result_invariant (fst (validate payload env this))"
proof (cases "remote_needed env this")
  case True
  then show ?thesis
    by (simp add: validate_remote result_invariant_remote_attempt)
next
  case False
  then obtain c where c: "cache this = Some c"
      and fresh: "now_validate env - timestamp c < cacheTTL (config this)"
    by (auto simp add: remote_needed_def split: option.splits)
  from reachable_cache [OF assms] c obtain resp t where "result c = online_result resp t"
    by auto
  then show ?thesis
    by (simp add: validate_fresh [OF c fresh] result_invariant_online)
qed

lemma result_invariant_validate_part002:
  assumes "reachable this"
  shows "result_invariant (fst (validate_part002 payload env this))"
proof (cases "remote_needed env this")
  case True
  then show ?thesis
    by (simp add: validate_part002_remote result_invariant_remote_attempt)
next
  case False
  then obtain c where c: "cache this = Some c"
      and fresh: "now_validate env - timestamp c < cacheTTL (config this)"
    by (auto simp add: remote_needed_def split: option.splits)
  from reachable_cache [OF assms] c obtain resp t where "result c = online_result resp t"
    by auto
  then show ?thesis
    by (simp add: validate_part002_fresh [OF c fresh] result_invariant_online
        result_invariant_reason)
qed

text \<open>
  C8. Every result that validate or forceValidate (either copy) returns from a
  reachable agent satisfies: isGracePeriod implies isOffline, and isOffline implies
  that error is present and is a NetworkError.
\<close>

theorem C8_result_invariant:
  assumes "reachable this"
  shows "result_invariant (fst (validate payload env this))
       \<and> result_invariant (fst (validate_part002 payload env this))
       \<and> result_invariant (fst (forceValidate payload env this))
       \<and> result_invariant (fst (forceValidate_part002 payload env this))"
proof -
  have "reachable (clearCache this)"
    using assms by (rule reachable.cleared)
  then show ?thesis
    using assms
    by (simp add: forceValidate_def forceValidate_part002_def result_invariant_validate
        result_invariant_validate_part002)
qed

theorem C8_result_invariant_witness:
  "reachable cached_agent
   \<and> result_invariant (fst (validate None (env_down 2000) cached_agent))
   \<and> isGracePeriod (fst (validate None (env_down 2000) cached_agent)) = Some True
   \<and> isOffline (fst (validate None (env_down 2000) cached_agent)) = Some True
   \<and> error (fst (validate None (env_down 2000) cached_agent)) =
       Val (NetworkError ''Failed to connect to license server''
              (Some (Error ''Network Failure'')))
   \<and> instanceof_NetworkError (NetworkError ''Failed to connect to license server''
        (Some (Error ''Network Failure'')))"
proof -
  have stale: "remote_needed (env_down 2000) cached_agent"
    by (simp add: remote_needed_def cache_cached_agent config_cached_agent config_base_agent
        env_down_simps)
  have valid: "isValid (result \<lparr>result = valid_result, timestamp = 0\<rparr>)"
    by (simp add: valid_result_def)
  have r: "fst (validate None (env_down 2000) cached_agent) =
      valid_result\<lparr>isValid := True, isOffline := Some True, isGracePeriod := Some True,
        reason := Val ''grace_period'',
        error := Val (NetworkError ''Failed to connect to license server''
                        (Some (Error ''Network Failure'')))\<rparr>"
    using stale valid
    by (simp add: validate_remote remote_attempt_Rejected env_down_simps
        offline_result_grace [OF cache_cached_agent] config_cached_agent config_base_agent)
  show ?thesis
    using C8_result_invariant [OF reachable_cached_agent, of None "env_down 2000"]
      reachable_cached_agent
    by (simp add: r)
qed

section \<open>The fresh-cache path\<close>

text \<open>
  In src/index.ts a call that goes to the server and succeeds, followed by a call
  that starts within the TTL of the entry just written, makes one remote call in
  all, and the second result is the first.
\<close>

lemma validate_twice:
  assumes "remote_needed env1 this"
    and "post env1 ''/licenses/validate'' (requestData (licenseKey (config this)) p1 this)
           = Resolved resp"
    and "now_validate env2 - now_cache env1 < cacheTTL (config this)"
  shows "case validate p1 env1 this of
           (r1, this1, calls1) \<Rightarrow>
             (case validate p2 env2 this1 of
                (r2, this2, calls2) \<Rightarrow>
                  length (calls1 @ calls2) = 1 \<and> calls2 = [] \<and> r2 = r1 \<and> this2 = this1)"
proof -
  let ?r = "online_result resp (now_checked env1)"
  let ?e = "\<lparr>result = ?r, timestamp = now_cache env1\<rparr>"
  let ?this1 = "this\<lparr>cache := Some ?e\<rparr>"
  have first: "validate p1 env1 this =
      (?r, ?this1, [(''/licenses/validate'', requestData (licenseKey (config this)) p1 this)])"
    using assms(1,2) by (simp add: validate_remote remote_attempt_Resolved)
  have "validate p2 env2 ?this1 = (result ?e, ?this1, [])"
    using assms(3) by (intro validate_fresh) simp_all
  with first show ?thesis by simp
qed

lemma online_result_INVALID_RESPONSE_REVOKED:
  "online_result INVALID_RESPONSE_REVOKED 0 = revoked_result"
  by (simp add: online_result_def INVALID_RESPONSE_REVOKED_def revoked_result_def)

lemma cache_revoked_agent:
  "cache revoked_agent = Some \<lparr>result = revoked_result, timestamp = 0\<rparr>"
  by (simp add: revoked_agent_def)

lemma config_revoked_agent: "config revoked_agent = config base_agent"
  by (simp add: revoked_agent_def)

lemma validate_part002_base_agent_revoked:
  "validate_part002 None (env_revoked 0) base_agent =
     (revoked_result, revoked_agent,
      [(''/licenses/validate'',
        \<lparr>license_key = ''prod_testprefix_testsecret'', product_name = ''TestProduct'',
         metadata = Undefined\<rparr>)])"
proof -
  have "remote_needed (env_revoked 0) base_agent"
    by (simp add: remote_needed_def cache_base_agent)
  then show ?thesis
    by (simp add: validate_part002_remote remote_attempt_Resolved env_revoked_simps
        online_result_INVALID_RESPONSE_REVOKED requestData_base_agent config_base_agent
        revoked_agent_def)
qed

text \<open>
  C1. When the cache holds an entry younger than the TTL, validate is to return the
  cached result unmodified without a remote call, so that the second of two calls
  within the TTL returns what the first returned. src/index.ts does so; the other
  copy of index.ts does not. The inputs are those of the test "should throw
  ValidationError if license is invalid from API": the server answers that the
  license is revoked, the first call at time 0 returns and caches that result, and
  the second call at time 500, with a TTL of 1000, is served from the cache. In the
  other copy the second result has the reason "revoked (cached)" instead of
  "revoked", and its checkOrThrow throws a ValidationError with that reason, where
  the test expects "revoked". Neither copy makes a remote call for the second call.
\<close>

theorem C1_part002_cached_reason:
  "validate_part002 None (env_revoked 0) base_agent =
     (revoked_result, revoked_agent,
      [(''/licenses/validate'',
        \<lparr>license_key = ''prod_testprefix_testsecret'', product_name = ''TestProduct'',
         metadata = Undefined\<rparr>)])
   \<and> cache revoked_agent = Some \<lparr>result = revoked_result, timestamp = 0\<rparr>
   \<and> now_validate (env_revoked 500) - 0 < cacheTTL (config revoked_agent)
   \<and> validate_part002 None (env_revoked 500) revoked_agent =
       (revoked_result\<lparr>reason := Val ''revoked (cached)''\<rparr>, revoked_agent, [])
   \<and> fst (validate_part002 None (env_revoked 500) revoked_agent) \<noteq> revoked_result
   \<and> fst (checkOrThrow_part002 None (env_revoked 500) revoked_agent) =
       Inl (ValidationError ''revoked (cached)'' (Val ''revoked (cached)'') (Val ''revoked'')
              Null JUndefined)
   \<and> validate None (env_revoked 500) revoked_agent = (revoked_result, revoked_agent, [])
   \<and> fst (checkOrThrow None (env_revoked 500) revoked_agent) =
       Inl (ValidationError ''revoked'' (Val ''revoked'') (Val ''revoked'') Null JUndefined)"
proof -
  have fresh: "now_validate (env_revoked 500) - timestamp \<lparr>result = revoked_result, timestamp = 0\<rparr>
      < cacheTTL (config revoked_agent)"
    by (simp add: env_revoked_simps config_revoked_agent config_base_agent)
  have second: "validate_part002 None (env_revoked 500) revoked_agent =
      (revoked_result\<lparr>reason := Val ''revoked (cached)''\<rparr>, revoked_agent, [])"
    by (simp add: validate_part002_fresh [OF cache_revoked_agent fresh])
      (simp add: revoked_result_def)
  have differs: "revoked_result\<lparr>reason := Val ''revoked (cached)''\<rparr> \<noteq> revoked_result"
    by (simp add: revoked_result_def)
  have thrown: "throw_unless_valid (revoked_result\<lparr>reason := Val ''revoked (cached)''\<rparr>) =
      Inl (ValidationError ''revoked (cached)'' (Val ''revoked (cached)'') (Val ''revoked'')
             Null JUndefined)"
    by (simp add: throw_unless_valid_def ValidationError_new_def revoked_result_def)
  have sibling: "validate None (env_revoked 500) revoked_agent =
      (revoked_result, revoked_agent, [])"
    by (simp add: validate_fresh [OF cache_revoked_agent fresh])
  have sibling_thrown: "throw_unless_valid revoked_result =
      Inl (ValidationError ''revoked'' (Val ''revoked'') (Val ''revoked'') Null JUndefined)"
    by (simp add: throw_unless_valid_def ValidationError_new_def revoked_result_def)
  show ?thesis
    using fresh
    by (simp add: validate_part002_base_agent_revoked cache_revoked_agent second differs
        thrown sibling sibling_thrown fst_checkOrThrow fst_checkOrThrow_part002)
qed

end
